theory Spec2Isabelle
  imports Main "HOL-Library.AList"
begin

section \<open>The session table of \<^verbatim>\<open>src/index.ts\<close>\<close>

text \<open>
  The router keeps one global object, \<^verbatim>\<open>const transports: Record<string, ...> = {}\<close>,
  from session id to transport object. A transport is one of the two SDK classes; the
  string it carries is its session id: the value of \<^verbatim>\<open>sessionIdGenerator()\<close> for a
  \<^verbatim>\<open>StreamableHTTPServerTransport\<close>, the field \<^verbatim>\<open>sessionId\<close> for an
  \<^verbatim>\<open>SSEServerTransport\<close>.
\<close>

datatype transport = StreamableHTTPServerTransport string | SSEServerTransport string

text \<open>
  The own properties of the object, in insertion order. \<^verbatim>\<open>transports[k] = t\<close> is
  \<open>AList.update k t\<close> (overwrite in place or append), \<^verbatim>\<open>delete transports[k]\<close> is
  \<open>AList.delete k\<close>, and \<^verbatim>\<open>Object.keys(transports).length\<close> is the length of the list.
  The keys the router writes are the results of \<^verbatim>\<open>randomUUID()\<close> (directly, or as the
  SDK's \<^verbatim>\<open>transport.sessionId\<close>), so they have the shape \<open>is_uuid\<close> below.
\<close>

type_synonym transports = "(string \<times> transport) list"

text \<open>
  \<^verbatim>\<open>transports\<close> is created by the literal \<^verbatim>\<open>{}\<close>, so its prototype is
  \<^verbatim>\<open>Object.prototype\<close>: a read \<^verbatim>\<open>transports[k]\<close> of a key that is not an own
  property finds the member of \<^verbatim>\<open>Object.prototype\<close> of that name, when there is one.
  Each of these members is a function (or, for \<^verbatim>\<open>__proto__\<close>, the prototype object
  itself): truthy, not an instance of either transport class, and without a property
  \<^verbatim>\<open>handleRequest\<close> or \<^verbatim>\<open>close\<close>.
\<close>

definition object_prototype_keys :: "string list" where
  "object_prototype_keys =
     [''constructor'', ''__proto__'', ''hasOwnProperty'', ''isPrototypeOf'',
      ''propertyIsEnumerable'', ''toLocaleString'', ''toString'', ''valueOf'',
      ''__defineGetter__'', ''__defineSetter__'', ''__lookupGetter__'', ''__lookupSetter__'']"

datatype js_property = Undefined | Inherited | Own transport

definition js_get :: "transports \<Rightarrow> string \<Rightarrow> js_property" where
  "js_get ts k =
     (case map_of ts k of
        Some t \<Rightarrow> Own t
      | None \<Rightarrow> if k \<in> set object_prototype_keys then Inherited else Undefined)"

text \<open>The shape of a value of \<^verbatim>\<open>randomUUID()\<close>: 8-4-4-4-12 lower-case hex digits.\<close>

definition uuid_hex :: "char \<Rightarrow> bool" where
  "uuid_hex c = (c \<in> set ''0123456789abcdef'')"

definition is_uuid :: "string \<Rightarrow> bool" where
  "is_uuid s =
     (length s = 36 \<and>
      list_all (\<lambda>(i, c). if i \<in> {8, 13, 18, 23} then c = CHR ''-'' else uuid_hex c)
        (enumerate 0 s))"

section \<open>Requests, responses and the calls into the SDK\<close>

text \<open>
  Of the parsed JSON body the router reads \<^verbatim>\<open>req.body?.method\<close> and
  \<^verbatim>\<open>req.body?.id\<close>; a body that is missing or has no such field gives \<open>None\<close>.
\<close>

datatype json_id = IdNull | IdNum int | IdStr string

record body =
  method' :: "string option"
  id' :: "json_id option"

text \<open>\<^verbatim>\<open>req.body?.id || null\<close>: every falsy id becomes \<^verbatim>\<open>null\<close>.\<close>

fun id_or_null :: "json_id option \<Rightarrow> json_id" where
  "id_or_null None = IdNull"
| "id_or_null (Some IdNull) = IdNull"
| "id_or_null (Some (IdNum n)) = (if n = 0 then IdNull else IdNum n)"
| "id_or_null (Some (IdStr s)) = (if s = [] then IdNull else IdStr s)"

text \<open>
  The SDK is an external collaborator. A call into it (\<^verbatim>\<open>mcpServer.connect\<close>,
  \<^verbatim>\<open>transport.handleRequest\<close>, \<^verbatim>\<open>transport.handlePostMessage\<close>,
  \<^verbatim>\<open>transport.close\<close>) either returns or throws; \<open>Throws sent\<close> carries the value
  \<^verbatim>\<open>res.headersSent\<close> has when the failure is caught. The outcome is an input of
  the handler's model.
\<close>

datatype call_outcome = Returns | Throws bool

text \<open>The calls a handler makes, in order.\<close>

datatype effect =
    CreateMcpServer
  | Connect transport
  | HandleRequest transport body
  | HandlePostMessage transport body
  | Close transport

datatype json =
    JsonRpcError int string json_id
  | ErrorBody string
  | HealthBody string nat string
  | NoBody

text \<open>
  What the client gets: \<open>Sent status body\<close> is written by the router itself;
  \<open>ByTransport t\<close> means the SDK call returned and the reply is the one transport
  \<open>t\<close> wrote; \<open>Abandoned\<close> is a failure caught after the headers were sent (logged,
  nothing more written); \<open>Escaped\<close> is a failure that no \<^verbatim>\<open>catch\<close> of the handler
  takes: the promise of the \<^verbatim>\<open>async\<close> handler rejects.
\<close>

datatype http_result = Sent nat json | ByTransport transport | Abandoned | Escaped

section \<open>The handlers\<close>

text \<open>
  The test \<^verbatim>\<open>sessionId && transports[sessionId]\<close> of the two \<^verbatim>\<open>/mcp\<close>
  handlers: a missing header and the empty string are falsy, and then the table is not
  read. \<open>transport_key\<close> is the property name \<^verbatim>\<open>delete transports[sessionId]\<close>
  uses (reached only with a truthy \<open>sessionId\<close>).
\<close>

definition truthy_session :: "transports \<Rightarrow> string option \<Rightarrow> js_property" where
  "truthy_session ts sessionId =
     (case sessionId of
        None \<Rightarrow> Undefined
      | Some s \<Rightarrow> if s = [] then Undefined else js_get ts s)"

fun transport_key :: "string option \<Rightarrow> string" where
  "transport_key (Some s) = s"
| "transport_key None = ''undefined''"

text \<open>The \<^verbatim>\<open>catch\<close> block of \<^verbatim>\<open>app.post("/mcp")\<close>.\<close>

definition mcp_post_catch :: "bool \<Rightarrow> body \<Rightarrow> http_result" where
  "mcp_post_catch headersSent b =
     (if \<not> headersSent
      then Sent 500 (JsonRpcError (- 32603) ''Internal server error'' (id_or_null (id' b)))
      else Abandoned)"

text \<open>
  \<^verbatim>\<open>app.post("/mcp")\<close>. \<open>sessionId\<close> is the header \<^verbatim>\<open>mcp-session-id\<close>,
  \<open>newSessionId\<close> the value \<^verbatim>\<open>randomUUID()\<close> returns, \<open>connect\<close> and
  \<open>handleRequest\<close> the outcomes of the two SDK calls. In the second branch a
  property inherited from \<^verbatim>\<open>Object.prototype\<close> passes the test
  \<^verbatim>\<open>sessionId && transports[sessionId]\<close>; \<^verbatim>\<open>transport.handleRequest\<close> is then
  \<^verbatim>\<open>undefined\<close> and calling it throws a TypeError inside the \<^verbatim>\<open>try\<close>, before
  anything is sent. The same happens when the property is an \<^verbatim>\<open>SSEServerTransport\<close>:
  the handler casts it (\<^verbatim>\<open>as StreamableHTTPServerTransport\<close>) without a check of its
  class, and the SDK class \<^verbatim>\<open>SSEServerTransport\<close> has no method
  \<^verbatim>\<open>handleRequest\<close> (its methods are \<^verbatim>\<open>start\<close>, \<^verbatim>\<open>handlePostMessage\<close>,
  \<^verbatim>\<open>handleMessage\<close>, \<^verbatim>\<open>send\<close> and \<^verbatim>\<open>close\<close>), so no call is made and
  the outcome \<open>handleRequest\<close> is not consulted.
\<close>

definition post_mcp ::
  "string option \<Rightarrow> body \<Rightarrow> string \<Rightarrow> call_outcome \<Rightarrow> call_outcome \<Rightarrow> transports
     \<Rightarrow> http_result \<times> effect list \<times> transports" where
  "post_mcp sessionId b newSessionId connect handleRequest ts =
     (if method' b = Some ''initialize'' then
        (let transport = StreamableHTTPServerTransport newSessionId;
             ts' = AList.update newSessionId transport ts
         in case connect of
              Throws sent \<Rightarrow>
                (mcp_post_catch sent b, [CreateMcpServer, Connect transport], ts')
            | Returns \<Rightarrow>
                (case handleRequest of
                   Returns \<Rightarrow>
                     (ByTransport transport,
                      [CreateMcpServer, Connect transport, HandleRequest transport b], ts')
                 | Throws sent \<Rightarrow>
                     (mcp_post_catch sent b,
                      [CreateMcpServer, Connect transport, HandleRequest transport b], ts')))
      else
        (case truthy_session ts sessionId of
           Own (StreamableHTTPServerTransport generated) \<Rightarrow>
             (case handleRequest of
                Returns \<Rightarrow>
                  (ByTransport (StreamableHTTPServerTransport generated),
                   [HandleRequest (StreamableHTTPServerTransport generated) b], ts)
              | Throws sent \<Rightarrow>
                  (mcp_post_catch sent b,
                   [HandleRequest (StreamableHTTPServerTransport generated) b], ts))
         | Own (SSEServerTransport sid) \<Rightarrow> (mcp_post_catch False b, [], ts)
         | Inherited \<Rightarrow> (mcp_post_catch False b, [], ts)
         | Undefined \<Rightarrow>
             (Sent 400 (JsonRpcError (- 32000) ''Invalid or missing session''
                (id_or_null (id' b))), [], ts)))"

text \<open>
  \<^verbatim>\<open>app.delete("/mcp")\<close>. There is no \<^verbatim>\<open>try\<close> around
  \<^verbatim>\<open>await transport.close?.()\<close>: when the call throws, the two statements after it
  do not run and the failure leaves the handler. On a property inherited from
  \<^verbatim>\<open>Object.prototype\<close> the member \<^verbatim>\<open>close\<close> is \<^verbatim>\<open>undefined\<close>, the optional
  call is skipped, \<^verbatim>\<open>delete\<close> finds no own property, and 204 is sent. A failing
  \<^verbatim>\<open>close\<close> is taken to fail before any \<^verbatim>\<open>onclose\<close> callback has run.
\<close>

definition delete_mcp ::
  "string option \<Rightarrow> call_outcome \<Rightarrow> transports \<Rightarrow> http_result \<times> effect list \<times> transports" where
  "delete_mcp sessionId close ts =
     (case truthy_session ts sessionId of
        Own transport \<Rightarrow>
          (case close of
             Returns \<Rightarrow>
               (Sent 204 NoBody, [Close transport], AList.delete (transport_key sessionId) ts)
           | Throws sent \<Rightarrow> (Escaped, [Close transport], ts))
      | Inherited \<Rightarrow> (Sent 204 NoBody, [], AList.delete (transport_key sessionId) ts)
      | Undefined \<Rightarrow> (Sent 404 (ErrorBody ''Session not found''), [], ts))"

text \<open>
  \<^verbatim>\<open>app.get("/sse")\<close>. \<open>sessionId\<close> is \<^verbatim>\<open>transport.sessionId\<close> of the new
  \<^verbatim>\<open>SSEServerTransport\<close>. When \<^verbatim>\<open>connect\<close> returns, the event stream stays open
  in the hands of the transport.
\<close>

definition get_sse ::
  "string \<Rightarrow> call_outcome \<Rightarrow> transports \<Rightarrow> http_result \<times> effect list \<times> transports" where
  "get_sse sessionId connect ts =
     (let transport = SSEServerTransport sessionId;
          ts' = AList.update sessionId transport ts
      in case connect of
           Returns \<Rightarrow> (ByTransport transport, [CreateMcpServer, Connect transport], ts')
         | Throws sent \<Rightarrow>
             (if \<not> sent then Sent 500 NoBody else Abandoned,
              [CreateMcpServer, Connect transport], AList.delete sessionId ts'))"

text \<open>The callback \<^verbatim>\<open>transport.onclose\<close> that \<^verbatim>\<open>app.get("/sse")\<close> registers.\<close>

definition sse_onclose :: "string \<Rightarrow> transports \<Rightarrow> transports" where
  "sse_onclose sessionId ts = AList.delete sessionId ts"

text \<open>
  \<^verbatim>\<open>app.post("/messages")\<close>. \<open>sessionId\<close> is \<^verbatim>\<open>req.query.sessionId\<close>;
  \<^verbatim>\<open>!sessionId\<close> holds for a missing parameter and for the empty string.
\<close>

definition post_messages ::
  "string option \<Rightarrow> body \<Rightarrow> call_outcome \<Rightarrow> transports \<Rightarrow> http_result \<times> effect list \<times> transports" where
  "post_messages sessionId b handlePostMessage ts =
     (case sessionId of
        None \<Rightarrow> (Sent 400 (ErrorBody ''Missing sessionId''), [], ts)
      | Some s \<Rightarrow>
          if s = [] then (Sent 400 (ErrorBody ''Missing sessionId''), [], ts)
          else
            (case js_get ts s of
               Own (SSEServerTransport sid) \<Rightarrow>
                 (case handlePostMessage of
                    Returns \<Rightarrow>
                      (ByTransport (SSEServerTransport sid),
                       [HandlePostMessage (SSEServerTransport sid) b], ts)
                  | Throws sent \<Rightarrow>
                      (if \<not> sent then Sent 500 (ErrorBody ''Internal server error'')
                       else Abandoned,
                       [HandlePostMessage (SSEServerTransport sid) b], ts))
             | _ \<Rightarrow> (Sent 404 (ErrorBody ''Session not found''), [], ts)))"

text \<open>\<^verbatim>\<open>app.get("/health")\<close>.\<close>

definition get_health :: "transports \<Rightarrow> http_result" where
  "get_health ts = Sent 200 (HealthBody ''ok'' (length ts) ''2.0.0'')"

section \<open>The tool \<^verbatim>\<open>set_variables_bulk\<close>\<close>

text \<open>The entries of the table \<^verbatim>\<open>queries\<close>.\<close>

datatype query =
    listProjects | getProject | listServices | listDeployments | getDeploymentLogs
  | listVariables | listEnvironments | createProject | createService | deployFromGithub
  | createDomain | setVariable | restartService | deleteProject | deleteService
  | deleteVariable

text \<open>
  One call \<^verbatim>\<open>client.request(query, variables)\<close>: the query and the fields of the
  variables object. The backend is remote; whether it rejects a call is an input of the
  model, a predicate \<open>rejects\<close> of the calls issued so far and the call at hand. The
  list of issued calls is the state: a call is recorded whether or not it is rejected,
  and nothing ever removes one.
\<close>

type_synonym gql_request = "query \<times> (string \<times> string) list"

datatype client_error = ClientError

definition client_request ::
  "(gql_request list \<Rightarrow> gql_request \<Rightarrow> bool) \<Rightarrow> query \<Rightarrow> (string \<times> string) list
     \<Rightarrow> gql_request list \<Rightarrow> (client_error + unit) \<times> gql_request list" where
  "client_request rejects q variables issued =
     (if rejects issued (q, variables) then Inl ClientError else Inr (),
      issued @ [(q, variables)])"

text \<open>
  The request the loop sends for one entry:
  \<^verbatim>\<open>client.request(queries.setVariable, { projectId, environmentId, serviceId, name, value })\<close>.
\<close>

definition bulk_request :: "string \<Rightarrow> string \<Rightarrow> string \<Rightarrow> string \<times> string \<Rightarrow> gql_request" where
  "bulk_request projectId environmentId serviceId entry =
     (setVariable,
      [(''projectId'', projectId), (''environmentId'', environmentId),
       (''serviceId'', serviceId), (''name'', fst entry), (''value'', snd entry)])"

text \<open>
  The loop \<^verbatim>\<open>for (const [name, value] of Object.entries(variables))\<close>: the list is
  \<^verbatim>\<open>Object.entries(variables)\<close>, \<open>results\<close> the array built so far. A rejected
  \<^verbatim>\<open>await client.request(...)\<close> throws out of the loop and out of the tool: there is no
  \<^verbatim>\<open>try\<close> in the callback.
\<close>

fun bulk_loop ::
  "(gql_request list \<Rightarrow> gql_request \<Rightarrow> bool) \<Rightarrow> string \<Rightarrow> string \<Rightarrow> string
     \<Rightarrow> (string \<times> string) list \<Rightarrow> (string \<times> bool) list \<Rightarrow> gql_request list
     \<Rightarrow> (client_error + (string \<times> bool) list) \<times> gql_request list" where
  "bulk_loop rejects projectId environmentId serviceId [] results issued =
     (Inr results, issued)"
| "bulk_loop rejects projectId environmentId serviceId (entry # entries) results issued =
     (case client_request rejects (fst (bulk_request projectId environmentId serviceId entry))
             (snd (bulk_request projectId environmentId serviceId entry)) issued of
        (Inl e, issued') \<Rightarrow> (Inl e, issued')
      | (Inr _, issued') \<Rightarrow>
          bulk_loop rejects projectId environmentId serviceId entries
            (results @ [(fst entry, True)]) issued')"

text \<open>
  The callback of \<^verbatim>\<open>set_variables_bulk\<close>; its value is the array \<open>results\<close> that
  the tool returns as JSON text, or the error it throws.
\<close>

definition set_variables_bulk ::
  "(gql_request list \<Rightarrow> gql_request \<Rightarrow> bool) \<Rightarrow> string \<Rightarrow> string \<Rightarrow> string
     \<Rightarrow> (string \<times> string) list \<Rightarrow> gql_request list
     \<Rightarrow> (client_error + (string \<times> bool) list) \<times> gql_request list" where
  "set_variables_bulk rejects projectId environmentId serviceId variables issued =
     bulk_loop rejects projectId environmentId serviceId variables [] issued"

section \<open>Runs of the router\<close>

text \<open>
  What can change the session table: the four handlers that touch it, with the inputs
  and SDK outcomes of each, and the \<^verbatim>\<open>onclose\<close> callback of an event-stream session.
\<close>

datatype event =
    PostMcp "string option" body string call_outcome call_outcome
  | DeleteMcp "string option" call_outcome
  | GetSse string call_outcome
  | SseOnclose string
  | PostMessages "string option" body call_outcome

fun step :: "event \<Rightarrow> transports \<Rightarrow> transports" where
  "step (PostMcp sessionId b newSessionId connect handleRequest) ts =
     snd (snd (post_mcp sessionId b newSessionId connect handleRequest ts))"
| "step (DeleteMcp sessionId close) ts = snd (snd (delete_mcp sessionId close ts))"
| "step (GetSse sessionId connect) ts = snd (snd (get_sse sessionId connect ts))"
| "step (SseOnclose sessionId) ts = sse_onclose sessionId ts"
| "step (PostMessages sessionId b handlePostMessage) ts =
     snd (snd (post_messages sessionId b handlePostMessage ts))"

definition run :: "event list \<Rightarrow> transports \<Rightarrow> transports" where
  "run evs ts = fold step evs ts"

text \<open>The id an event generates for a new session, if it creates one.\<close>

fun created :: "event \<Rightarrow> string option" where
  "created (PostMcp sessionId b newSessionId connect handleRequest) =
     (if method' b = Some ''initialize'' then Some newSessionId else None)"
| "created (GetSse sessionId connect) = Some sessionId"
| "created _ = None"

definition created_ids :: "event list \<Rightarrow> string list" where
  "created_ids evs = List.map_filter created evs"

text \<open>
  The spec's notion of a live session, in its own words. A session is created "on
  receipt of an initialization message for the request/response transport, or on
  receipt of a new event-stream connection", where \<open>create\<close> "connects the engine to
  the transport handle"; it is destroyed "on explicit teardown request, on event-stream
  connection close, or on unrecoverable transport error", where \<open>destroy\<close> closes the
  handle "best-effort; failures during close are swallowed, not surfaced" and removes
  the entry. So a session whose engine could not be connected is not live, and a
  teardown request ends the session named by its header whether or not \<^verbatim>\<open>close\<close>
  fails. The live sessions are those created and not yet destroyed; \<open>live\<close> keeps
  their ids and never looks at the table.
\<close>

fun live_step :: "event \<Rightarrow> string set \<Rightarrow> string set" where
  "live_step (PostMcp sessionId b newSessionId connect handleRequest) L =
     (if method' b = Some ''initialize'' then
        (case connect of
           Returns \<Rightarrow> insert newSessionId L
         | Throws sent \<Rightarrow> L - {newSessionId})
      else L)"
| "live_step (GetSse sessionId connect) L =
     (case connect of
        Returns \<Rightarrow> insert sessionId L
      | Throws sent \<Rightarrow> L - {sessionId})"
| "live_step (DeleteMcp sessionId close) L =
     (case sessionId of Some s \<Rightarrow> L - {s} | None \<Rightarrow> L)"
| "live_step (SseOnclose sessionId) L = L - {sessionId}"
| "live_step (PostMessages sessionId b handlePostMessage) L = L"

definition live :: "event list \<Rightarrow> string set" where
  "live evs = fold live_step evs {}"

text \<open>
  The SDK calls that set up or tear down a session return: \<^verbatim>\<open>connect\<close> in the two
  creating handlers, \<^verbatim>\<open>close\<close> in \<^verbatim>\<open>DELETE /mcp\<close>.
\<close>

fun collaborators_succeed :: "event \<Rightarrow> bool" where
  "collaborators_succeed (PostMcp sessionId b newSessionId connect handleRequest) =
     (method' b = Some ''initialize'' \<longrightarrow> connect = Returns)"
| "collaborators_succeed (GetSse sessionId connect) = (connect = Returns)"
| "collaborators_succeed (DeleteMcp sessionId close) = (close = Returns)"
| "collaborators_succeed (SseOnclose sessionId) = True"
| "collaborators_succeed (PostMessages sessionId b handlePostMessage) = True"

text \<open>
  Along a run from table \<open>ts\<close>, every id generated for a new session is looked up
  in vain at the moment it is generated: it is no key of a live entry.
\<close>

fun fresh_at_creation :: "event list \<Rightarrow> transports \<Rightarrow> bool" where
  "fresh_at_creation [] ts = True"
| "fresh_at_creation (e # evs) ts =
     ((case created e of Some u \<Rightarrow> js_get ts u = Undefined | None \<Rightarrow> True) \<and>
      fresh_at_creation evs (step e ts))"

section \<open>The bulk loop\<close>

text \<open>
  Three facts about the loop, for any backend: the calls it adds are the requests of a
  prefix of the entries, in order; it stops with the first rejected call; and when no
  call is rejected it goes through all entries and reports each as a success.
\<close>

lemma bulk_loop_prefix:
  "\<exists>n\<le>length vs. snd (bulk_loop r p e s vs res iss) = iss @ map (bulk_request p e s) (take n vs)"
proof (induction vs arbitrary: res iss)
  case Nil
  then show ?case by simp
next
  case (Cons v vs)
  show ?case
  proof (cases "r iss (bulk_request p e s v)")
    case True
    then have "snd (bulk_loop r p e s (v # vs) res iss) = iss @ map (bulk_request p e s) (take (Suc 0) (v # vs))"
      by (simp add: client_request_def)
    then show ?thesis by (metis Suc_leI length_Cons zero_less_Suc)
  next
    case False
    from Cons.IH [of "res @ [(fst v, True)]" "iss @ [bulk_request p e s v]"]
    obtain n where n: "n \<le> length vs"
      "snd (bulk_loop r p e s vs (res @ [(fst v, True)]) (iss @ [bulk_request p e s v]))
         = (iss @ [bulk_request p e s v]) @ map (bulk_request p e s) (take n vs)"
      by blast
    with False have "snd (bulk_loop r p e s (v # vs) res iss) = iss @ map (bulk_request p e s) (take (Suc n) (v # vs))"
      by (simp add: client_request_def)
    moreover have "Suc n \<le> length (v # vs)" using n(1) by simp
    ultimately show ?thesis by blast
  qed
qed

lemma bulk_loop_first_failure:
  "i < length vs \<Longrightarrow>
   (\<forall>k<i. \<not> r (iss @ map (bulk_request p e s) (take k vs)) (bulk_request p e s (vs ! k))) \<Longrightarrow>
   r (iss @ map (bulk_request p e s) (take i vs)) (bulk_request p e s (vs ! i)) \<Longrightarrow>
   bulk_loop r p e s vs res iss = (Inl ClientError, iss @ map (bulk_request p e s) (take (Suc i) vs))"
proof (induction vs arbitrary: i res iss)
  case Nil
  then show ?case by simp
next
  case (Cons v vs)
  show ?case
  proof (cases i)
    case 0
    with Cons.prems show ?thesis by (simp add: client_request_def)
  next
    case (Suc j)
    from Cons.prems(2) Suc have ok: "\<not> r iss (bulk_request p e s v)"
      by (auto dest: spec [of _ 0])
    have a: "j < length vs" using Cons.prems(1) Suc by simp
    have b: "\<forall>k<j. \<not> r ((iss @ [bulk_request p e s v]) @ map (bulk_request p e s) (take k vs))
                (bulk_request p e s (vs ! k))"
    proof (intro allI impI)
      fix k assume "k < j"
      then have "Suc k < i" using Suc by simp
      with Cons.prems(2) have "\<not> r (iss @ map (bulk_request p e s) (take (Suc k) (v # vs)))
          (bulk_request p e s ((v # vs) ! Suc k))" by blast
      then show "\<not> r ((iss @ [bulk_request p e s v]) @ map (bulk_request p e s) (take k vs))
                (bulk_request p e s (vs ! k))" by simp
    qed
    have c: "r ((iss @ [bulk_request p e s v]) @ map (bulk_request p e s) (take j vs))
               (bulk_request p e s (vs ! j))"
      using Cons.prems(3) Suc by simp
    from Cons.IH [OF a b c, of "res @ [(fst v, True)]"] ok Suc
    show ?thesis by (simp add: client_request_def)
  qed
qed

lemma bulk_loop_all_succeed:
  "(\<forall>k<length vs. \<not> r (iss @ map (bulk_request p e s) (take k vs)) (bulk_request p e s (vs ! k))) \<Longrightarrow>
   bulk_loop r p e s vs res iss =
     (Inr (res @ map (\<lambda>entry. (fst entry, True)) vs), iss @ map (bulk_request p e s) vs)"
proof (induction vs arbitrary: res iss)
  case Nil
  then show ?case by simp
next
  case (Cons v vs)
  from Cons.prems have ok: "\<not> r iss (bulk_request p e s v)"
    by (auto dest: spec [of _ 0])
  have b: "\<forall>k<length vs. \<not> r ((iss @ [bulk_request p e s v]) @ map (bulk_request p e s) (take k vs))
                (bulk_request p e s (vs ! k))"
  proof (intro allI impI)
    fix k assume "k < length vs"
    then have "Suc k < length (v # vs)" by simp
    with Cons.prems have "\<not> r (iss @ map (bulk_request p e s) (take (Suc k) (v # vs)))
        (bulk_request p e s ((v # vs) ! Suc k))" by blast
    then show "\<not> r ((iss @ [bulk_request p e s v]) @ map (bulk_request p e s) (take k vs))
                (bulk_request p e s (vs ! k))" by simp
  qed
  from Cons.IH [OF b, of "res @ [(fst v, True)]"] ok
  show ?case by (simp add: client_request_def)
qed


text \<open>
  C3. The calls of \<^verbatim>\<open>set_variables_bulk\<close> are issued one per key, in the order of the
  entries: when the backend rejects none, the calls issued are exactly the requests of
  all entries, one each, in order. If the call for the key at index \<open>i\<close> is the
  first one the backend rejects, the loop stops there and the tool throws: the calls
  issued are exactly those for the keys \<open>0..i\<close>, none for a later key. In both cases
  they come after the calls issued before, which stay as they were: nothing is added
  that would undo an earlier call.
\<close>

theorem set_variables_bulk_stops_at_first_failure:
  "((\<forall>k<length variables.
        \<not> rejects (issued @ map (bulk_request p e s) (take k variables))
            (bulk_request p e s (variables ! k))) \<longrightarrow>
      snd (set_variables_bulk rejects p e s variables issued) =
        issued @ map (bulk_request p e s) variables) \<and>
   (\<forall>i<length variables.
      (\<forall>k<i. \<not> rejects (issued @ map (bulk_request p e s) (take k variables))
                  (bulk_request p e s (variables ! k))) \<and>
      rejects (issued @ map (bulk_request p e s) (take i variables))
        (bulk_request p e s (variables ! i)) \<longrightarrow>
      set_variables_bulk rejects p e s variables issued =
        (Inl ClientError, issued @ map (bulk_request p e s) (take (Suc i) variables))) \<and>
   (\<exists>n\<le>length variables.
      snd (set_variables_bulk rejects p e s variables issued) =
        issued @ map (bulk_request p e s) (take n variables))"
proof (intro conjI impI allI)
  assume "\<forall>k<length variables.
        \<not> rejects (issued @ map (bulk_request p e s) (take k variables))
            (bulk_request p e s (variables ! k))"
  from bulk_loop_all_succeed [OF this, of "[]"]
  show "snd (set_variables_bulk rejects p e s variables issued) =
        issued @ map (bulk_request p e s) variables"
    by (simp add: set_variables_bulk_def)
next
  fix i
  assume "i < length variables"
    and "(\<forall>k<i. \<not> rejects (issued @ map (bulk_request p e s) (take k variables))
                  (bulk_request p e s (variables ! k))) \<and>
      rejects (issued @ map (bulk_request p e s) (take i variables))
        (bulk_request p e s (variables ! i))"
  then show "set_variables_bulk rejects p e s variables issued =
      (Inl ClientError, issued @ map (bulk_request p e s) (take (Suc i) variables))"
    unfolding set_variables_bulk_def
    using bulk_loop_first_failure [of i variables rejects issued p e s "[]"] by blast
next
  show "\<exists>n\<le>length variables.
      snd (set_variables_bulk rejects p e s variables issued) =
        issued @ map (bulk_request p e s) (take n variables)"
    unfolding set_variables_bulk_def
    using bulk_loop_prefix [of variables rejects p e s "[]" issued] .
qed

theorem set_variables_bulk_stops_at_first_failure_witness:
  "set_variables_bulk (\<lambda>issued r. r = bulk_request ''prj'' ''env'' ''svc'' (''PORT'', ''8080''))
     ''prj'' ''env'' ''svc''
     [(''DATABASE_URL'', ''pg''), (''PORT'', ''8080''), (''TOKEN'', ''t'')] [] =
   (Inl ClientError,
    [bulk_request ''prj'' ''env'' ''svc'' (''DATABASE_URL'', ''pg''),
     bulk_request ''prj'' ''env'' ''svc'' (''PORT'', ''8080'')]) \<and>
   snd (set_variables_bulk (\<lambda>issued r. False) ''prj'' ''env'' ''svc''
     [(''DATABASE_URL'', ''pg''), (''PORT'', ''8080''), (''TOKEN'', ''t'')] []) =
   [bulk_request ''prj'' ''env'' ''svc'' (''DATABASE_URL'', ''pg''),
    bulk_request ''prj'' ''env'' ''svc'' (''PORT'', ''8080''),
    bulk_request ''prj'' ''env'' ''svc'' (''TOKEN'', ''t'')]"
proof -
  let ?vs = "[(''DATABASE_URL'', ''pg''), (''PORT'', ''8080''), (''TOKEN'', ''t'')]"
  let ?r = "\<lambda>(issued :: gql_request list) r. r = bulk_request ''prj'' ''env'' ''svc'' (''PORT'', ''8080'')"
  let ?ok = "\<lambda>(issued :: gql_request list) (r :: gql_request). False"
  have first: "(\<forall>k<1. \<not> ?r ([] @ map (bulk_request ''prj'' ''env'' ''svc'') (take k ?vs))
                  (bulk_request ''prj'' ''env'' ''svc'' (?vs ! k))) \<and>
      ?r ([] @ map (bulk_request ''prj'' ''env'' ''svc'') (take 1 ?vs))
        (bulk_request ''prj'' ''env'' ''svc'' (?vs ! 1))"
    by (simp add: bulk_request_def)
  have "(1::nat) < length ?vs" by simp
  with first
    set_variables_bulk_stops_at_first_failure
      [where variables = ?vs and rejects = ?r and p = "''prj''" and e = "''env''"
         and s = "''svc''" and issued = "[]"]
  have a: "set_variables_bulk ?r ''prj'' ''env'' ''svc'' ?vs [] =
        (Inl ClientError, [] @ map (bulk_request ''prj'' ''env'' ''svc'') (take (Suc 1) ?vs))"
    by blast
  have b: "snd (set_variables_bulk ?ok ''prj'' ''env'' ''svc'' ?vs []) =
        [] @ map (bulk_request ''prj'' ''env'' ''svc'') ?vs"
    using set_variables_bulk_stops_at_first_failure
      [where variables = ?vs and rejects = ?ok and p = "''prj''" and e = "''env''"
         and s = "''svc''" and issued = "[]"]
    by blast
  from a b show ?thesis by simp
qed

text \<open>
  C4, as stated, fails: the loop does not go on after a failed call, and then no
  per-key result is reported at all. With the entries \<open>A\<close>, \<open>B\<close>, \<open>C\<close> and a
  backend that rejects the call for \<open>B\<close>, the tool throws and no call for \<open>C\<close>
  is issued.
\<close>

theorem set_variables_bulk_continues_counterexample:
  "set_variables_bulk (\<lambda>issued r. r = bulk_request ''p'' ''e'' ''s'' (''B'', ''2''))
     ''p'' ''e'' ''s'' [(''A'', ''1''), (''B'', ''2''), (''C'', ''3'')] [] =
   (Inl ClientError,
    [bulk_request ''p'' ''e'' ''s'' (''A'', ''1''), bulk_request ''p'' ''e'' ''s'' (''B'', ''2'')]) \<and>
   bulk_request ''p'' ''e'' ''s'' (''C'', ''3'') \<notin>
     set (snd (set_variables_bulk (\<lambda>issued r. r = bulk_request ''p'' ''e'' ''s'' (''B'', ''2''))
       ''p'' ''e'' ''s'' [(''A'', ''1''), (''B'', ''2''), (''C'', ''3'')] []))"
  by (simp add: set_variables_bulk_def client_request_def bulk_request_def)

text \<open>
  C4, amended. The tool issues one call per key, in order, up to and including the
  first call the backend rejects. When no call is rejected it has gone through all
  keys and returns one entry \<^verbatim>\<open>{name, success: true}\<close> per key, in order. When the
  call for the key at index \<open>i\<close> is the first rejected one, the tool fails with that
  error instead of returning a result, and the calls it has issued are exactly those
  for the keys \<open>0..i\<close>, in order: none for a later key.
\<close>

theorem set_variables_bulk_result:
  "((\<forall>k<length variables.
        \<not> rejects (issued @ map (bulk_request p e s) (take k variables))
            (bulk_request p e s (variables ! k))) \<longrightarrow>
      set_variables_bulk rejects p e s variables issued =
        (Inr (map (\<lambda>entry. (fst entry, True)) variables),
         issued @ map (bulk_request p e s) variables)) \<and>
   (\<forall>i<length variables.
      (\<forall>k<i. \<not> rejects (issued @ map (bulk_request p e s) (take k variables))
                  (bulk_request p e s (variables ! k))) \<and>
      rejects (issued @ map (bulk_request p e s) (take i variables))
        (bulk_request p e s (variables ! i)) \<longrightarrow>
      fst (set_variables_bulk rejects p e s variables issued) = Inl ClientError \<and>
      snd (set_variables_bulk rejects p e s variables issued) =
        issued @ map (bulk_request p e s) (take (Suc i) variables))"
proof (intro conjI impI allI)
  assume "\<forall>k<length variables.
        \<not> rejects (issued @ map (bulk_request p e s) (take k variables))
            (bulk_request p e s (variables ! k))"
  from bulk_loop_all_succeed [OF this, of "[]"]
  show "set_variables_bulk rejects p e s variables issued =
        (Inr (map (\<lambda>entry. (fst entry, True)) variables),
         issued @ map (bulk_request p e s) variables)"
    by (simp add: set_variables_bulk_def)
next
  fix i
  assume i: "i < length variables"
    and "(\<forall>k<i. \<not> rejects (issued @ map (bulk_request p e s) (take k variables))
                  (bulk_request p e s (variables ! k))) \<and>
      rejects (issued @ map (bulk_request p e s) (take i variables))
        (bulk_request p e s (variables ! i))"
  then have eq: "set_variables_bulk rejects p e s variables issued =
      (Inl ClientError, issued @ map (bulk_request p e s) (take (Suc i) variables))"
    unfolding set_variables_bulk_def
    using bulk_loop_first_failure [of i variables rejects issued p e s "[]"] by blast
  show "fst (set_variables_bulk rejects p e s variables issued) = Inl ClientError"
    by (simp add: eq)
  show "snd (set_variables_bulk rejects p e s variables issued) =
      issued @ map (bulk_request p e s) (take (Suc i) variables)"
    by (simp add: eq)
qed

theorem set_variables_bulk_result_witness:
  "set_variables_bulk (\<lambda>issued r. False) ''p'' ''e'' ''s'' [(''A'', ''1''), (''B'', ''2'')] [] =
     (Inr [(''A'', True), (''B'', True)],
      [bulk_request ''p'' ''e'' ''s'' (''A'', ''1''), bulk_request ''p'' ''e'' ''s'' (''B'', ''2'')]) \<and>
   set_variables_bulk (\<lambda>issued r. r = bulk_request ''p'' ''e'' ''s'' (''A'', ''1''))
     ''p'' ''e'' ''s'' [(''A'', ''1''), (''B'', ''2'')] [] =
     (Inl ClientError, [bulk_request ''p'' ''e'' ''s'' (''A'', ''1'')])"
proof -
  let ?vs = "[(''A'', ''1''), (''B'', ''2'')]"
  let ?ok = "\<lambda>(issued :: gql_request list) (r :: gql_request). False"
  let ?r = "\<lambda>(issued :: gql_request list) r. r = bulk_request ''p'' ''e'' ''s'' (''A'', ''1'')"
  have a: "set_variables_bulk ?ok ''p'' ''e'' ''s'' ?vs [] =
     (Inr (map (\<lambda>entry. (fst entry, True)) ?vs), [] @ map (bulk_request ''p'' ''e'' ''s'') ?vs)"
    using set_variables_bulk_result
      [where variables = ?vs and rejects = ?ok and p = "''p''" and e = "''e''"
         and s = "''s''" and issued = "[]"]
    by blast
  have first: "(\<forall>k<0. \<not> ?r ([] @ map (bulk_request ''p'' ''e'' ''s'') (take k ?vs))
                  (bulk_request ''p'' ''e'' ''s'' (?vs ! k))) \<and>
      ?r ([] @ map (bulk_request ''p'' ''e'' ''s'') (take 0 ?vs))
        (bulk_request ''p'' ''e'' ''s'' (?vs ! 0))"
    by simp
  have "(0::nat) < length ?vs" by simp
  with first
    set_variables_bulk_result
      [where variables = ?vs and rejects = ?r and p = "''p''" and e = "''e''"
         and s = "''s''" and issued = "[]"]
  have b: "fst (set_variables_bulk ?r ''p'' ''e'' ''s'' ?vs []) = Inl ClientError \<and>
      snd (set_variables_bulk ?r ''p'' ''e'' ''s'' ?vs []) =
        [] @ map (bulk_request ''p'' ''e'' ''s'') (take (Suc 0) ?vs)"
    by blast
  from a b show ?thesis
    by (cases "set_variables_bulk ?r ''p'' ''e'' ''s'' ?vs []") simp
qed

section \<open>Session ids and table lookups\<close>

lemma is_uuid_not_inherited: "is_uuid s \<Longrightarrow> s \<notin> set object_prototype_keys"
  by (auto simp add: is_uuid_def object_prototype_keys_def)

lemma is_uuid_nonempty: "is_uuid s \<Longrightarrow> s \<noteq> []"
  by (auto simp add: is_uuid_def)

lemma truthy_session_Undefined_iff:
  "truthy_session ts sessionId = Undefined \<longleftrightarrow>
     sessionId = None \<or> sessionId = Some [] \<or>
     (\<exists>s. sessionId = Some s \<and> map_of ts s = None \<and> s \<notin> set object_prototype_keys)"
  by (auto simp add: truthy_session_def js_get_def split: option.splits)

lemma keys_delete: "fst ` set (AList.delete k ts) = fst ` set ts - {k}"
  using delete_keys [of k ts] by (metis list.set_map set_removeAll)

lemma map_of_None_keys: "map_of ts k = None \<longleftrightarrow> k \<notin> fst ` set ts"
  by (simp add: map_of_eq_None_iff)

section \<open>\<^verbatim>\<open>POST /mcp\<close>\<close>

text \<open>
  When the body is not an initialize message and the lookup
  \<^verbatim>\<open>sessionId && transports[sessionId]\<close> finds nothing, the router answers 400 with
  the envelope of code -32000, calls nothing and leaves the table as it is. The
  lookup finds nothing for a missing or empty header and for a key that is neither
  an own property of the table nor a member of \<^verbatim>\<open>Object.prototype\<close>
  (\<open>truthy_session_Undefined_iff\<close>).
\<close>

lemma post_mcp_invalid_session:
  "method' b \<noteq> Some ''initialize'' \<Longrightarrow> truthy_session ts sessionId = Undefined \<Longrightarrow>
   post_mcp sessionId b newSessionId connect handleRequest ts =
     (Sent 400 (JsonRpcError (- 32000) ''Invalid or missing session'' (id_or_null (id' b))),
      [], ts)"
  by (simp add: post_mcp_def)

text \<open>
  C1. A \<^verbatim>\<open>POST /mcp\<close> that is not an initialize message and whose session header
  does not resolve to a live session is to be answered with 400 and the envelope of
  code -32000, without any backend call. The code departs from it for a header that
  names a member of \<^verbatim>\<open>Object.prototype\<close>: with the header
  \<^verbatim>\<open>Mcp-Session-Id: constructor\<close> and an empty session table the test
  \<^verbatim>\<open>sessionId && transports[sessionId]\<close> succeeds, the call of the missing method
  \<^verbatim>\<open>handleRequest\<close> throws, and the \<^verbatim>\<open>catch\<close> block answers 500 with code -32603.
  No call into the SDK, and so no backend call, is made.
\<close>

theorem post_mcp_inherited_key:
  "post_mcp (Some ''constructor'') \<lparr>method' = Some ''tools/list'', id' = Some (IdNum 1)\<rparr>
     ''123e4567-e89b-42d3-a456-426614174000'' Returns Returns [] =
   (Sent 500 (JsonRpcError (- 32603) ''Internal server error'' (IdNum 1)), [], [])"
  by (simp add: post_mcp_def truthy_session_def js_get_def object_prototype_keys_def mcp_post_catch_def)




text \<open>
  C10, as stated, fails for an initialize message: the first branch of the handler does
  not look at the session header, so the request is not forwarded to the event-stream
  session's transport; a new session is created and the payload goes to its transport.
\<close>

theorem post_mcp_sse_session_initialize_counterexample:
  "post_mcp (Some ''9b2f6c1e-0d4a-4c7b-8e21-5f3a7d9c0b44'')
     \<lparr>method' = Some ''initialize'', id' = Some (IdNum 1)\<rparr>
     ''123e4567-e89b-42d3-a456-426614174000'' Returns Returns
     [(''9b2f6c1e-0d4a-4c7b-8e21-5f3a7d9c0b44'',
       SSEServerTransport ''9b2f6c1e-0d4a-4c7b-8e21-5f3a7d9c0b44'')] =
   (ByTransport (StreamableHTTPServerTransport ''123e4567-e89b-42d3-a456-426614174000''),
    [CreateMcpServer,
     Connect (StreamableHTTPServerTransport ''123e4567-e89b-42d3-a456-426614174000''),
     HandleRequest (StreamableHTTPServerTransport ''123e4567-e89b-42d3-a456-426614174000'')
       \<lparr>method' = Some ''initialize'', id' = Some (IdNum 1)\<rparr>],
    [(''9b2f6c1e-0d4a-4c7b-8e21-5f3a7d9c0b44'',
       SSEServerTransport ''9b2f6c1e-0d4a-4c7b-8e21-5f3a7d9c0b44''),
     (''123e4567-e89b-42d3-a456-426614174000'',
       StreamableHTTPServerTransport ''123e4567-e89b-42d3-a456-426614174000'')])"
  by (simp add: post_mcp_def Let_def)

text \<open>
  The second row of the decision table: a request that is not an initialize message
  and whose header resolves to a live request/response session is handed to that
  session's transport.
\<close>

lemma post_mcp_streamable_session:
  assumes "method' b \<noteq> Some ''initialize''" and "sessionId \<noteq> []"
    and "map_of ts sessionId = Some (StreamableHTTPServerTransport generated)"
  shows "snd (post_mcp (Some sessionId) b newSessionId connect handleRequest ts) =
           ([HandleRequest (StreamableHTTPServerTransport generated) b], ts)"
  using assms
  by (simp add: post_mcp_def truthy_session_def js_get_def split: call_outcome.splits)

text \<open>
  C10, amended. For every \<^verbatim>\<open>POST /mcp\<close> whose body is not an initialize message and
  whose session header resolves to a live session of event-stream kind, the router
  does not reject the request with the envelope of code -32000. It makes no check of
  the kind and takes the forward branch with that session's \<^verbatim>\<open>SSEServerTransport\<close>
  object, treated as a request/response transport; the mismatch surfaces through the
  catch-all, always as the 500 envelope of code -32603, whatever the SDK would do:
  the object has no \<^verbatim>\<open>handleRequest\<close>, so nothing is called or sent before. The
  table stays as it is.
\<close>

theorem post_mcp_sse_session:
  assumes "method' b \<noteq> Some ''initialize''" and "sessionId \<noteq> []"
    and "map_of ts sessionId = Some (SSEServerTransport sid)"
  shows "post_mcp (Some sessionId) b newSessionId connect handleRequest ts =
           (Sent 500 (JsonRpcError (- 32603) ''Internal server error'' (id_or_null (id' b))),
            [], ts) \<and>
         fst (post_mcp (Some sessionId) b newSessionId connect handleRequest ts) \<noteq>
           Sent 400 (JsonRpcError (- 32000) ''Invalid or missing session'' (id_or_null (id' b)))"
  using assms
  by (simp add: post_mcp_def truthy_session_def js_get_def mcp_post_catch_def)

theorem post_mcp_sse_session_witness:
  "post_mcp (Some ''9b2f6c1e-0d4a-4c7b-8e21-5f3a7d9c0b44'')
     \<lparr>method' = Some ''tools/list'', id' = Some (IdNum 7)\<rparr>
     ''123e4567-e89b-42d3-a456-426614174000'' Returns Returns
     [(''9b2f6c1e-0d4a-4c7b-8e21-5f3a7d9c0b44'',
       SSEServerTransport ''9b2f6c1e-0d4a-4c7b-8e21-5f3a7d9c0b44'')] =
   (Sent 500 (JsonRpcError (- 32603) ''Internal server error'' (IdNum 7)), [],
    [(''9b2f6c1e-0d4a-4c7b-8e21-5f3a7d9c0b44'',
       SSEServerTransport ''9b2f6c1e-0d4a-4c7b-8e21-5f3a7d9c0b44'')])"
proof -
  let ?s = "''9b2f6c1e-0d4a-4c7b-8e21-5f3a7d9c0b44''"
  let ?b = "\<lparr>method' = Some ''tools/list'', id' = Some (IdNum 7)\<rparr>"
  let ?ts = "[(?s, SSEServerTransport ?s)]"
  have 1: "method' ?b \<noteq> Some ''initialize''" by simp
  have 2: "?s \<noteq> []" by simp
  have 3: "map_of ?ts ?s = Some (SSEServerTransport ?s)" by simp
  from post_mcp_sse_session [OF 1 2 3, of "''123e4567-e89b-42d3-a456-426614174000''" Returns Returns]
  show ?thesis by simp
qed

section \<open>\<^verbatim>\<open>DELETE /mcp\<close>\<close>

text \<open>
  For a key that is an own property of the table and no member of
  \<^verbatim>\<open>Object.prototype\<close>, and a \<^verbatim>\<open>close\<close> that returns, destroying the session twice
  gives 204 and then 404; every id the lookup does not find gives 404 and no change.
\<close>

lemma delete_mcp_twice:
  assumes "sessionId \<noteq> []" and "sessionId \<notin> set object_prototype_keys"
    and "map_of ts sessionId = Some transport"
  shows "delete_mcp (Some sessionId) Returns ts =
           (Sent 204 NoBody, [Close transport], AList.delete sessionId ts) \<and>
         delete_mcp (Some sessionId) close' (AList.delete sessionId ts) =
           (Sent 404 (ErrorBody ''Session not found''), [], AList.delete sessionId ts)"
  using assms
  by (simp add: delete_mcp_def truthy_session_def js_get_def delete_conv')

lemma delete_mcp_unknown:
  "truthy_session ts sessionId = Undefined \<Longrightarrow>
   delete_mcp sessionId close ts = (Sent 404 (ErrorBody ''Session not found''), [], ts)"
  by (simp add: delete_mcp_def)

text \<open>
  C2. Destroying a session is to answer 404 for an id that is unknown and 204 for a live
  one, with a failure of \<^verbatim>\<open>close\<close> swallowed. The code departs from it twice. The id
  \<^verbatim>\<open>constructor\<close>, never created, is answered with 204, and again with 204 the second
  time: the lookup finds the member of \<^verbatim>\<open>Object.prototype\<close>. And when
  \<^verbatim>\<open>close\<close> throws for a live session, the failure leaves the handler, no 204 is sent
  and the entry stays in the table.
\<close>

theorem delete_mcp_inherited_key_and_failing_close:
  "delete_mcp (Some ''constructor'') Returns [] = (Sent 204 NoBody, [], []) \<and>
   delete_mcp (Some ''constructor'') Returns
     (snd (snd (delete_mcp (Some ''constructor'') Returns []))) = (Sent 204 NoBody, [], []) \<and>
   delete_mcp (Some ''123e4567-e89b-42d3-a456-426614174000'') (Throws False)
     [(''123e4567-e89b-42d3-a456-426614174000'',
       StreamableHTTPServerTransport ''123e4567-e89b-42d3-a456-426614174000'')] =
   (Escaped, [Close (StreamableHTTPServerTransport ''123e4567-e89b-42d3-a456-426614174000'')],
    [(''123e4567-e89b-42d3-a456-426614174000'',
       StreamableHTTPServerTransport ''123e4567-e89b-42d3-a456-426614174000'')])"
  by (simp add: delete_mcp_def truthy_session_def js_get_def object_prototype_keys_def)

text \<open>
  The handlers of \<^verbatim>\<open>POST /mcp\<close>, \<^verbatim>\<open>GET /sse\<close> and \<^verbatim>\<open>POST /messages\<close> catch every
  failure of the SDK calls they make; \<^verbatim>\<open>DELETE /mcp\<close> lets a failure escape exactly
  when \<^verbatim>\<open>close\<close> of a live session throws.
\<close>

lemma post_mcp_not_Escaped: "fst (post_mcp sessionId b u c h ts) \<noteq> Escaped"
  by (simp add: post_mcp_def mcp_post_catch_def Let_def
        split: call_outcome.splits js_property.splits transport.splits)

lemma get_sse_not_Escaped: "fst (get_sse sessionId connect ts) \<noteq> Escaped"
  by (simp add: get_sse_def Let_def split: call_outcome.splits)

lemma post_messages_not_Escaped: "fst (post_messages sessionId b h ts) \<noteq> Escaped"
  by (simp add: post_messages_def split: option.splits js_property.splits transport.splits call_outcome.splits)

lemma delete_mcp_Escaped_iff:
  "fst (delete_mcp sessionId close ts) = Escaped \<longleftrightarrow>
     (\<exists>transport sent. truthy_session ts sessionId = Own transport \<and> close = Throws sent)"
  by (auto simp add: delete_mcp_def split: js_property.splits call_outcome.splits)

text \<open>
  C5. Every router branch that calls into the SDK is to catch a failure of that call, so
  that no request, \<^verbatim>\<open>DELETE /mcp\<close> included, lets a failure out of the router. The
  code departs from it in \<^verbatim>\<open>DELETE /mcp\<close>: \<^verbatim>\<open>await transport.close?.()\<close> stands
  outside any \<^verbatim>\<open>try\<close>, and a \<^verbatim>\<open>close\<close> that throws for a live session rejects
  the handler's promise.
\<close>

theorem delete_mcp_close_failure_escapes:
  "fst (delete_mcp (Some ''9b2f6c1e-0d4a-4c7b-8e21-5f3a7d9c0b44'') (Throws False)
     [(''9b2f6c1e-0d4a-4c7b-8e21-5f3a7d9c0b44'',
       StreamableHTTPServerTransport ''9b2f6c1e-0d4a-4c7b-8e21-5f3a7d9c0b44'')]) = Escaped"
  by (simp add: delete_mcp_def truthy_session_def js_get_def)

section \<open>\<^verbatim>\<open>POST /messages\<close>\<close>

text \<open>
  C9, as stated, fails for a parameter that is present and empty
  (\<^verbatim>\<open>POST /messages?sessionId=\<close>): \<^verbatim>\<open>!sessionId\<close> holds for the empty string, and
  the answer is 400, not 404.
\<close>

theorem post_messages_empty_parameter_counterexample:
  "post_messages (Some '''') \<lparr>method' = Some ''tools/list'', id' = Some (IdNum 1)\<rparr> Returns [] =
     (Sent 400 (ErrorBody ''Missing sessionId''), [], [])"
  by (simp add: post_messages_def)

text \<open>
  C9, amended. For every \<^verbatim>\<open>POST /messages\<close>: if the query parameter
  \<^verbatim>\<open>sessionId\<close> is absent or empty, the router answers 400; if it is non-empty and
  does not resolve to a live event-stream session (no entry, or an entry of the other
  kind), it answers 404; in both cases it calls nothing. Only when the parameter
  resolves to a live event-stream session is the body forwarded, to that session's
  transport.
\<close>

theorem post_messages_dispatch:
  "((sessionId = None \<or> sessionId = Some []) \<longrightarrow>
      post_messages sessionId b handlePostMessage ts =
        (Sent 400 (ErrorBody ''Missing sessionId''), [], ts)) \<and>
   (\<forall>s. sessionId = Some s \<and> s \<noteq> [] \<and>
        (\<forall>sid. map_of ts s \<noteq> Some (SSEServerTransport sid)) \<longrightarrow>
      post_messages sessionId b handlePostMessage ts =
        (Sent 404 (ErrorBody ''Session not found''), [], ts)) \<and>
   (\<forall>s sid. sessionId = Some s \<and> s \<noteq> [] \<and> map_of ts s = Some (SSEServerTransport sid) \<longrightarrow>
      snd (post_messages sessionId b handlePostMessage ts) =
        ([HandlePostMessage (SSEServerTransport sid) b], ts) \<and>
      fst (post_messages sessionId b handlePostMessage ts) \<noteq>
        Sent 400 (ErrorBody ''Missing sessionId'') \<and>
      fst (post_messages sessionId b handlePostMessage ts) \<noteq>
        Sent 404 (ErrorBody ''Session not found'')) \<and>
   (fst (snd (post_messages sessionId b handlePostMessage ts)) \<noteq> [] \<longrightarrow>
      (\<exists>s sid. sessionId = Some s \<and> s \<noteq> [] \<and> map_of ts s = Some (SSEServerTransport sid)))"
  by (auto simp add: post_messages_def js_get_def
        split: option.splits js_property.splits transport.splits call_outcome.splits)

theorem post_messages_dispatch_witness:
  "post_messages None \<lparr>method' = Some ''tools/list'', id' = Some (IdNum 1)\<rparr> Returns
     [(''9b2f6c1e-0d4a-4c7b-8e21-5f3a7d9c0b44'', SSEServerTransport ''9b2f6c1e-0d4a-4c7b-8e21-5f3a7d9c0b44'')] =
     (Sent 400 (ErrorBody ''Missing sessionId''), [],
      [(''9b2f6c1e-0d4a-4c7b-8e21-5f3a7d9c0b44'', SSEServerTransport ''9b2f6c1e-0d4a-4c7b-8e21-5f3a7d9c0b44'')]) \<and>
   post_messages (Some ''123e4567-e89b-42d3-a456-426614174000'')
     \<lparr>method' = Some ''tools/list'', id' = Some (IdNum 1)\<rparr> Returns
     [(''9b2f6c1e-0d4a-4c7b-8e21-5f3a7d9c0b44'', SSEServerTransport ''9b2f6c1e-0d4a-4c7b-8e21-5f3a7d9c0b44'')] =
     (Sent 404 (ErrorBody ''Session not found''), [],
      [(''9b2f6c1e-0d4a-4c7b-8e21-5f3a7d9c0b44'', SSEServerTransport ''9b2f6c1e-0d4a-4c7b-8e21-5f3a7d9c0b44'')]) \<and>
   snd (post_messages (Some ''9b2f6c1e-0d4a-4c7b-8e21-5f3a7d9c0b44'')
     \<lparr>method' = Some ''tools/list'', id' = Some (IdNum 1)\<rparr> Returns
     [(''9b2f6c1e-0d4a-4c7b-8e21-5f3a7d9c0b44'', SSEServerTransport ''9b2f6c1e-0d4a-4c7b-8e21-5f3a7d9c0b44'')]) =
     ([HandlePostMessage (SSEServerTransport ''9b2f6c1e-0d4a-4c7b-8e21-5f3a7d9c0b44'')
         \<lparr>method' = Some ''tools/list'', id' = Some (IdNum 1)\<rparr>],
      [(''9b2f6c1e-0d4a-4c7b-8e21-5f3a7d9c0b44'', SSEServerTransport ''9b2f6c1e-0d4a-4c7b-8e21-5f3a7d9c0b44'')])"
proof -
  let ?b = "\<lparr>method' = Some ''tools/list'', id' = Some (IdNum 1)\<rparr>"
  let ?u = "''123e4567-e89b-42d3-a456-426614174000''"
  let ?s = "''9b2f6c1e-0d4a-4c7b-8e21-5f3a7d9c0b44''"
  let ?ts = "[(?s, SSEServerTransport ?s)]"
  have "post_messages None ?b Returns ?ts = (Sent 400 (ErrorBody ''Missing sessionId''), [], ?ts)"
    using post_messages_dispatch [of None ?b Returns ?ts] by simp
  moreover have "Some ?u = Some ?u \<and> ?u \<noteq> [] \<and>
      (\<forall>sid. map_of ?ts ?u \<noteq> Some (SSEServerTransport sid))"
    by simp
  with post_messages_dispatch [of "Some ?u" ?b Returns ?ts]
  have "post_messages (Some ?u) ?b Returns ?ts =
      (Sent 404 (ErrorBody ''Session not found''), [], ?ts)"
    by blast
  moreover have "Some ?s = Some ?s \<and> ?s \<noteq> [] \<and> map_of ?ts ?s = Some (SSEServerTransport ?s)"
    by simp
  with post_messages_dispatch [of "Some ?s" ?b Returns ?ts]
  have "snd (post_messages (Some ?s) ?b Returns ?ts) =
      ([HandlePostMessage (SSEServerTransport ?s) ?b], ?ts)"
    by blast
  ultimately show ?thesis by simp
qed

section \<open>Runs: the keys of the table\<close>

lemma step_keys_distinct: "distinct (map fst ts) \<Longrightarrow> distinct (map fst (step e ts))"
  by (cases e)
    (auto simp add: post_mcp_def delete_mcp_def get_sse_def sse_onclose_def post_messages_def
       Let_def distinct_update distinct_delete
       split: call_outcome.splits js_property.splits option.splits transport.splits)

lemma run_keys_distinct: "distinct (map fst ts) \<Longrightarrow> distinct (map fst (run evs ts))"
  unfolding run_def by (induction evs arbitrary: ts) (simp_all add: step_keys_distinct)

lemma step_keys_subset:
  "fst ` set (step e ts) \<subseteq> fst ` set ts \<union> set_option (created e)"
  by (cases e)
    (auto simp add: post_mcp_def delete_mcp_def get_sse_def sse_onclose_def post_messages_def
       Let_def dom_update keys_delete
       split: call_outcome.splits js_property.splits option.splits transport.splits)

lemma created_ids_Cons:
  "created_ids (e # evs) = (case created e of Some u \<Rightarrow> u # created_ids evs | None \<Rightarrow> created_ids evs)"
  by (simp add: created_ids_def List.map_filter_simps split: option.splits)

lemma fresh_at_creation_from:
  "fst ` set ts \<inter> set (created_ids evs) = {} \<Longrightarrow> distinct (created_ids evs) \<Longrightarrow>
   list_all is_uuid (created_ids evs) \<Longrightarrow> fresh_at_creation evs ts"
proof (induction evs arbitrary: ts)
  case Nil
  then show ?case by simp
next
  case (Cons e evs)
  show ?case
  proof (cases "created e")
    case None
    have "fst ` set (step e ts) \<subseteq> fst ` set ts"
      using step_keys_subset [of e ts] None by simp
    moreover have "fst ` set ts \<inter> set (created_ids evs) = {}"
      using Cons.prems(1) None by (simp add: created_ids_Cons)
    ultimately have "fst ` set (step e ts) \<inter> set (created_ids evs) = {}"
      by blast
    with Cons.IH [of "step e ts"] Cons.prems None show ?thesis
      by (simp add: created_ids_Cons)
  next
    case (Some u)
    with Cons.prems have u: "u \<notin> fst ` set ts" "is_uuid u" "u \<notin> set (created_ids evs)"
      by (auto simp add: created_ids_Cons)
    then have "js_get ts u = Undefined"
      by (simp add: js_get_def map_of_None_keys [symmetric] is_uuid_not_inherited
            del: map_of_eq_None_iff)
    moreover have "fst ` set (step e ts) \<inter> set (created_ids evs) = {}"
    proof -
      have "fst ` set (step e ts) \<subseteq> insert u (fst ` set ts)"
        using step_keys_subset [of e ts] Some by simp
      moreover have "fst ` set ts \<inter> set (created_ids evs) = {}"
        using Cons.prems(1) Some by (simp add: created_ids_Cons)
      ultimately show ?thesis using u(3) by blast
    qed
    ultimately show ?thesis
      using Cons.IH [of "step e ts"] Cons.prems Some by (simp add: created_ids_Cons)
  qed
qed

text \<open>
  C7, as stated, fails: nothing in the router compares a new id with the table. The id
  is whatever \<^verbatim>\<open>randomUUID()\<close> returns, and \<^verbatim>\<open>transports[newSessionId] = transport\<close>
  overwrites. If the generator returns the same id for two initialize requests, the
  two ids produced are equal, the second is the id of a live entry when it is
  generated, and one entry is left.
\<close>

theorem created_ids_collide_counterexample:
  "created_ids
     [PostMcp None \<lparr>method' = Some ''initialize'', id' = Some (IdNum 1)\<rparr>
        ''123e4567-e89b-42d3-a456-426614174000'' Returns Returns,
      PostMcp None \<lparr>method' = Some ''initialize'', id' = Some (IdNum 1)\<rparr>
        ''123e4567-e89b-42d3-a456-426614174000'' Returns Returns] =
     [''123e4567-e89b-42d3-a456-426614174000'', ''123e4567-e89b-42d3-a456-426614174000''] \<and>
   js_get
     (run [PostMcp None \<lparr>method' = Some ''initialize'', id' = Some (IdNum 1)\<rparr>
             ''123e4567-e89b-42d3-a456-426614174000'' Returns Returns] [])
     ''123e4567-e89b-42d3-a456-426614174000'' =
     Own (StreamableHTTPServerTransport ''123e4567-e89b-42d3-a456-426614174000'') \<and>
   \<not> fresh_at_creation
     [PostMcp None \<lparr>method' = Some ''initialize'', id' = Some (IdNum 1)\<rparr>
        ''123e4567-e89b-42d3-a456-426614174000'' Returns Returns,
      PostMcp None \<lparr>method' = Some ''initialize'', id' = Some (IdNum 1)\<rparr>
        ''123e4567-e89b-42d3-a456-426614174000'' Returns Returns] [] \<and>
   run
     [PostMcp None \<lparr>method' = Some ''initialize'', id' = Some (IdNum 1)\<rparr>
        ''123e4567-e89b-42d3-a456-426614174000'' Returns Returns,
      PostMcp None \<lparr>method' = Some ''initialize'', id' = Some (IdNum 1)\<rparr>
        ''123e4567-e89b-42d3-a456-426614174000'' Returns Returns] [] =
     [(''123e4567-e89b-42d3-a456-426614174000'',
       StreamableHTTPServerTransport ''123e4567-e89b-42d3-a456-426614174000'')]"
  by (simp add: created_ids_def List.map_filter_simps run_def post_mcp_def Let_def js_get_def)

text \<open>
  C7, amended. The router makes no collision check: ids are distinct as far as the
  generator's values are. For every sequence of requests and close callbacks in which
  the generated ids (UUIDs) are pairwise distinct, each generated id is, at the moment
  it is generated, not the id of any live session entry, also when earlier sessions
  were destroyed before; and the table never holds two entries for one id.
\<close>

theorem created_ids_fresh:
  assumes "distinct (created_ids evs)" and "list_all is_uuid (created_ids evs)"
  shows "fresh_at_creation evs [] \<and> distinct (map fst (run evs []))"
  using assms by (simp add: fresh_at_creation_from run_keys_distinct)

theorem created_ids_fresh_witness:
  "fresh_at_creation
     [PostMcp None \<lparr>method' = Some ''initialize'', id' = Some (IdNum 1)\<rparr>
        ''123e4567-e89b-42d3-a456-426614174000'' Returns Returns,
      DeleteMcp (Some ''123e4567-e89b-42d3-a456-426614174000'') Returns,
      GetSse ''9b2f6c1e-0d4a-4c7b-8e21-5f3a7d9c0b44'' Returns] [] \<and>
   distinct (map fst (run
     [PostMcp None \<lparr>method' = Some ''initialize'', id' = Some (IdNum 1)\<rparr>
        ''123e4567-e89b-42d3-a456-426614174000'' Returns Returns,
      DeleteMcp (Some ''123e4567-e89b-42d3-a456-426614174000'') Returns,
      GetSse ''9b2f6c1e-0d4a-4c7b-8e21-5f3a7d9c0b44'' Returns] []))"
proof -
  let ?evs = "[PostMcp None \<lparr>method' = Some ''initialize'', id' = Some (IdNum 1)\<rparr>
        ''123e4567-e89b-42d3-a456-426614174000'' Returns Returns,
      DeleteMcp (Some ''123e4567-e89b-42d3-a456-426614174000'') Returns,
      GetSse ''9b2f6c1e-0d4a-4c7b-8e21-5f3a7d9c0b44'' Returns]"
  have ids: "created_ids ?evs =
      [''123e4567-e89b-42d3-a456-426614174000'', ''9b2f6c1e-0d4a-4c7b-8e21-5f3a7d9c0b44'']"
    by (simp add: created_ids_def List.map_filter_simps)
  have "distinct (created_ids ?evs)" unfolding ids by simp
  moreover have "list_all is_uuid (created_ids ?evs)"
    unfolding ids by (simp add: is_uuid_def uuid_hex_def)
  ultimately show ?thesis by (rule created_ids_fresh)
qed

section \<open>\<^verbatim>\<open>GET /health\<close>\<close>

lemma step_live:
  assumes "collaborators_succeed e" and "fst ` set ts = L" and "[] \<notin> L"
  shows "fst ` set (step e ts) = live_step e L"
proof (cases e)
  case (PostMcp sessionId b newSessionId connect handleRequest)
  with assms show ?thesis
    by (auto simp add: post_mcp_def Let_def dom_update
          split: call_outcome.splits js_property.splits transport.splits)
next
  case (DeleteMcp sessionId close)
  show ?thesis
  proof (cases "truthy_session ts sessionId")
    case Undefined
    then have "\<And>s. sessionId = Some s \<Longrightarrow> s \<notin> fst ` set ts"
      using assms(2,3)
      by (auto simp add: truthy_session_def js_get_def map_of_eq_None_iff
            split: option.splits if_splits)
    with Undefined DeleteMcp assms show ?thesis
      by (auto simp add: delete_mcp_def split: option.splits)
  next
    case Inherited
    with DeleteMcp assms show ?thesis
      by (auto simp add: delete_mcp_def keys_delete truthy_session_def
            split: option.splits if_splits)
  next
    case (Own t)
    with DeleteMcp assms show ?thesis
      by (auto simp add: delete_mcp_def keys_delete truthy_session_def
            split: option.splits if_splits)
  qed
next
  case (GetSse sessionId connect)
  with assms show ?thesis by (auto simp add: get_sse_def Let_def dom_update)
next
  case (SseOnclose sessionId)
  with assms show ?thesis by (auto simp add: sse_onclose_def keys_delete)
next
  case (PostMessages sessionId b handlePostMessage)
  with assms show ?thesis
    by (auto simp add: post_messages_def
          split: call_outcome.splits js_property.splits option.splits transport.splits)
qed

lemma live_step_nonempty:
  "[] \<notin> L \<Longrightarrow> (\<forall>u. created e = Some u \<longrightarrow> is_uuid u) \<Longrightarrow> [] \<notin> live_step e L"
  by (cases e) (auto dest: is_uuid_nonempty split: option.splits call_outcome.splits if_splits)

lemma run_live:
  "list_all collaborators_succeed evs \<Longrightarrow> list_all is_uuid (created_ids evs) \<Longrightarrow>
   fst ` set ts = L \<Longrightarrow> [] \<notin> L \<Longrightarrow>
   fst ` set (fold step evs ts) = fold live_step evs L"
proof (induction evs arbitrary: ts L)
  case Nil
  then show ?case by simp
next
  case (Cons e evs)
  have a: "fst ` set (step e ts) = live_step e L"
    using Cons.prems by (simp add: step_live)
  have b: "[] \<notin> live_step e L"
    using Cons.prems by (intro live_step_nonempty) (auto simp add: created_ids_Cons)
  have c: "list_all is_uuid (created_ids evs)"
    using Cons.prems(2) by (auto simp add: created_ids_Cons split: option.splits)
  from Cons.IH [OF _ c a b] Cons.prems(1) show ?case by simp
qed

text \<open>
  When the SDK's \<^verbatim>\<open>connect\<close> and \<^verbatim>\<open>close\<close> return in every request of a run (and
  the generated ids are UUIDs), the count \<^verbatim>\<open>GET /health\<close> reports is the number of
  live sessions.
\<close>

lemma get_health_when_collaborators_succeed:
  assumes "list_all collaborators_succeed evs" and "list_all is_uuid (created_ids evs)"
  shows "get_health (run evs []) = Sent 200 (HealthBody ''ok'' (card (live evs)) ''2.0.0'')"
proof -
  have "fst ` set (run evs []) = live evs"
    unfolding run_def live_def using assms by (intro run_live) simp_all
  moreover have "distinct (map fst (run evs []))" by (simp add: run_keys_distinct)
  ultimately have "card (live evs) = length (run evs [])"
    by (metis distinct_card length_map list.set_map)
  then show ?thesis by (simp add: get_health_def)
qed


end
